theory Spec2Isabelle
  imports Main "HOL-Library.Word"
begin

section \<open>JavaScript strings and buffers\<close>

text \<open>
  A JavaScript string is a sequence of 16-bit code units, a \<open>Buffer\<close> a sequence of
  bytes. String literals of the script are written \<open>js ''...''\<close>.
\<close>

type_synonym codeunit = "16 word"
type_synonym jsstring = "codeunit list"
type_synonym byte = "8 word"
type_synonym buffer = "byte list"

definition js :: "string \<Rightarrow> jsstring" where
  "js s = map of_char s"

text \<open>
  \<open>String.prototype.toLowerCase\<close> on the letters \<open>A\<close> to \<open>Z\<close>. Code units outside
  that range are left as they are: no other code point lower-cases to a full stop or to
  one of the letters of the extensions the script compares with.
\<close>

definition toLowerCase :: "jsstring \<Rightarrow> jsstring" where
  "toLowerCase s = map (\<lambda>c. if 0x41 \<le> c \<and> c \<le> 0x5A then c + 0x20 else c) s"

definition endsWith :: "jsstring \<Rightarrow> jsstring \<Rightarrow> bool" where
  "endsWith s suffix =
     (length suffix \<le> length s \<and> drop (length s - length suffix) s = suffix)"

text \<open>A number in a template literal: its decimal digits.\<close>

fun decimal :: "nat \<Rightarrow> jsstring" where
  "decimal n =
     (if n < 10 then [of_nat (48 + n)]
      else decimal (n div 10) @ [of_nat (48 + n mod 10)])"

declare decimal.simps [simp del]

text \<open>\<open>Array.prototype.join\<close> on strings.\<close>

fun joinWith :: "jsstring \<Rightarrow> jsstring list \<Rightarrow> jsstring" where
  "joinWith sep [] = []"
| "joinWith sep [x] = x"
| "joinWith sep (x # y # ys) = x @ sep @ joinWith sep (y # ys)"

text \<open>
  The \<open>'binary'\<close> (latin1) encoding: \<open>buf.toString('binary')\<close> makes each byte the code
  unit of the same number, \<open>Buffer.from(s, 'binary')\<close> keeps the low byte of each code
  unit, and \<open>Buffer.byteLength(s, 'binary')\<close> is the number of code units.
\<close>

definition toString_binary :: "buffer \<Rightarrow> jsstring" where
  "toString_binary buf = map ucast buf"

definition Buffer_from_binary :: "jsstring \<Rightarrow> buffer" where
  "Buffer_from_binary s = map ucast s"

definition byteLength_binary :: "jsstring \<Rightarrow> nat" where
  "byteLength_binary s = length s"

section \<open>The POSIX \<open>path\<close> module\<close>

definition slash :: codeunit where
  "slash = 0x2F"

definition dot :: codeunit where
  "dot = 0x2E"

text \<open>
  \<open>path.basename\<close>: trailing slashes are dropped, then the code units after the last
  remaining slash are returned.
\<close>

definition basename :: "jsstring \<Rightarrow> jsstring" where
  "basename p =
     rev (takeWhile (\<lambda>c. c \<noteq> slash) (dropWhile (\<lambda>c. c = slash) (rev p)))"

text \<open>
  \<open>path.extname\<close>: from the last full stop of the basename to its end; empty when the
  basename has no full stop, when its only full stop is its first code unit, and for
  the basename \<open>..\<close>.
\<close>

definition extname :: "jsstring \<Rightarrow> jsstring" where
  "extname p =
     (let b = basename p;
          ext = rev (takeWhile (\<lambda>c. c \<noteq> dot) (rev b));
          pre = rev (drop 1 (dropWhile (\<lambda>c. c \<noteq> dot) (rev b)))
      in if dot \<notin> set b then []
         else if pre = [] then []
         else if b = [dot, dot] then []
         else dot # ext)"

text \<open>The segments of a path between its slashes.\<close>

fun segments :: "jsstring \<Rightarrow> jsstring list" where
  "segments [] = [[]]"
| "segments (c # cs) =
     (if c = slash then [] # segments cs
      else (case segments cs of
              [] \<Rightarrow> [[c]]
            | s # ss \<Rightarrow> (c # s) # ss))"

text \<open>
  The normalisation of \<open>path.normalize\<close> and \<open>path.resolve\<close>: empty segments and \<open>.\<close>
  are dropped, \<open>..\<close> removes the segment before it; at the start of a path it is kept
  when the path is relative and dropped when it is absolute.
\<close>

fun normalizeStep :: "bool \<Rightarrow> jsstring list \<Rightarrow> jsstring \<Rightarrow> jsstring list" where
  "normalizeStep allowAboveRoot res seg =
     (if seg = [] \<or> seg = [dot] then res
      else if seg = [dot, dot] then
        (if res \<noteq> [] \<and> last res \<noteq> [dot, dot] then butlast res
         else if allowAboveRoot then res @ [seg]
         else res)
      else res @ [seg])"

definition normalizeString :: "jsstring \<Rightarrow> bool \<Rightarrow> jsstring" where
  "normalizeString p allowAboveRoot =
     joinWith [slash] (foldl (normalizeStep allowAboveRoot) [] (segments p))"

definition isAbsolute :: "jsstring \<Rightarrow> bool" where
  "isAbsolute p = (case p of [] \<Rightarrow> False | c # _ \<Rightarrow> c = slash)"

definition normalize :: "jsstring \<Rightarrow> jsstring" where
  "normalize p =
     (if p = [] then [dot]
      else
        (let trailingSeparator = (last p = slash);
             q = normalizeString p (\<not> isAbsolute p)
         in if q = [] then
              (if isAbsolute p then [slash]
               else if trailingSeparator then [dot, slash] else [dot])
            else (if isAbsolute p then [slash] else [])
                 @ q @ (if trailingSeparator then [slash] else [])))"

text \<open>\<open>path.join\<close> of two strings.\<close>

definition path_join :: "jsstring \<Rightarrow> jsstring \<Rightarrow> jsstring" where
  "path_join a b =
     (let joined = (if a = [] then b else if b = [] then a else a @ [slash] @ b)
      in if joined = [] then [dot] else normalize joined)"

text \<open>
  \<open>path.resolve\<close> of one path, as the list of its segments below the root; a relative
  path is resolved against the working directory \<open>cwd\<close>, which is absolute.
\<close>

definition resolveSegments :: "jsstring \<Rightarrow> jsstring \<Rightarrow> jsstring list" where
  "resolveSegments cwd p =
     foldl (normalizeStep False) []
       (segments (if isAbsolute p then p else if p = [] then cwd else cwd @ [slash] @ p))"

fun dropCommon :: "jsstring list \<Rightarrow> jsstring list \<Rightarrow> jsstring list \<times> jsstring list" where
  "dropCommon (x # xs) (y # ys) =
     (if x = y then dropCommon xs ys else (x # xs, y # ys))"
| "dropCommon xs ys = (xs, ys)"

text \<open>
  \<open>path.relative\<close>: both paths are resolved, their common leading segments dropped, and
  the result climbs out of what is left of \<open>from\<close> and descends into what is left of
  \<open>to\<close>.
\<close>

definition path_relative :: "jsstring \<Rightarrow> jsstring \<Rightarrow> jsstring \<Rightarrow> jsstring" where
  "path_relative cwd from to =
     (if from = to then []
      else
        (case dropCommon (resolveSegments cwd from) (resolveSegments cwd to) of
           (up, down) \<Rightarrow> joinWith [slash] (map (\<lambda>_. [dot, dot]) up @ down)))"

section \<open>Errors, JSON values and the environment\<close>

text \<open>A thrown value; the script reads nothing of it but its \<open>message\<close>.\<close>

datatype error =
    Error (message: jsstring)
  | TypeError (message: jsstring)
  | SyntaxError (message: jsstring)
  | SystemError (message: jsstring)

text \<open>
  A parsed JSON document. A number is kept as the string that \<open>String\<close> makes of it.
\<close>

datatype json =
    JNull
  | JBool bool
  | JNum jsstring
  | JStr jsstring
  | JArr "json list"
  | JObj "(jsstring \<times> json) list"

text \<open>
  \<open>result.url\<close>: reading a property of \<open>null\<close> throws, an object gives the member of
  that name or \<open>undefined\<close> (\<open>None\<close>), any other value gives \<open>undefined\<close>.
\<close>

definition get_url :: "json \<Rightarrow> error + json option" where
  "get_url result =
     (case result of
        JNull \<Rightarrow> Inl (TypeError (js ''Cannot read properties of null (reading 'url')''))
      | JObj members \<Rightarrow> Inr (map_of members (js ''url''))
      | _ \<Rightarrow> Inr None)"

text \<open>\<open>String(v)\<close> of a JSON value or \<open>undefined\<close>, as a template literal applies it.\<close>

fun String_of_json :: "json \<Rightarrow> jsstring" where
  "String_of_json JNull = js ''null''"
| "String_of_json (JBool b) = (if b then js ''true'' else js ''false'')"
| "String_of_json (JNum s) = s"
| "String_of_json (JStr s) = s"
| "String_of_json (JArr xs) =
     joinWith (js '','')
       (map (\<lambda>x. case x of JNull \<Rightarrow> [] | _ \<Rightarrow> String_of_json x) xs)"
| "String_of_json (JObj members) = js ''[object Object]''"

definition String_of :: "json option \<Rightarrow> jsstring" where
  "String_of v = (case v of None \<Rightarrow> js ''undefined'' | Some j \<Rightarrow> String_of_json j)"

text \<open>
  A node of the file system as \<open>readdir\<close> with \<open>withFileTypes\<close> shows it: a regular
  file, a directory with its entries, a directory whose listing fails with an error
  (its entries are on the disk all the same), or anything else (a symbolic link, a
  socket, a device).
\<close>

datatype fsnode =
    RegularFile
  | Directory "(jsstring \<times> fsnode) list"
  | Unreadable error "(jsstring \<times> fsnode) list"
  | Special

record request =
  url :: jsstring
  http_method :: jsstring
  headers :: "(jsstring \<times> jsstring) list"
  body :: buffer

record response =
  status :: nat
  statusText :: jsstring
  bodyText :: jsstring

text \<open>
  What the script reads from outside: the process environment, the working directory,
  the file system (the node found at a path, if any, and the contents of a file), the
  clock, the HTTP layer, and \<open>JSON.parse\<close>, whose grammar is not modelled. They are
  fixed for a run, as the doubles of a test are.
\<close>

record world =
  env :: "jsstring \<Rightarrow> jsstring option"
  cwd :: jsstring
  fs :: "jsstring \<Rightarrow> fsnode option"
  readFile :: "jsstring \<Rightarrow> error + buffer"
  now :: nat
  fetch :: "request \<Rightarrow> error + response"
  JSON_parse :: "jsstring \<Rightarrow> error + json"

text \<open>One entry of the list \<open>uploadDirectory\<close> returns.\<close>

datatype upload_result =
    Success (fileName: jsstring) (relativePath: jsstring) "json option"
  | Failure (fileName: jsstring) (relativePath: jsstring) jsstring

fun success :: "upload_result \<Rightarrow> bool" where
  "success (Success _ _ _) = True"
| "success (Failure _ _ _) = False"

text \<open>
  What a run does that can be observed: the lines it prints (each with the arguments
  given to \<open>console\<close>), and the calls it makes to the file system, the clock and the
  network. \<open>ConsoleLogJSON\<close> stands for the line printing
  \<open>JSON.stringify(output, null, 2)\<close>, and records the object printed.
\<close>

datatype event =
    ConsoleLog "jsstring list"
  | ConsoleWarn "jsstring list"
  | ConsoleError "jsstring list"
  | ConsoleLogJSON "upload_result list" "upload_result list" nat
  | FsAccess jsstring
  | FsReaddir jsstring
  | FsReadFile jsstring
  | DateNow
  | Fetch request

section \<open>File discovery\<close>

text \<open>
  \<open>fs.readdir(path, {withFileTypes: true})\<close> at a path where the given node stands.
\<close>

definition readdir :: "jsstring \<Rightarrow> fsnode option \<Rightarrow> error + (jsstring \<times> fsnode) list" where
  "readdir p node =
     (case node of
        None \<Rightarrow>
          Inl (SystemError (js ''ENOENT: no such file or directory, scandir '' @ [0x27] @ p @ [0x27]))
      | Some (Directory entries) \<Rightarrow> Inr entries
      | Some (Unreadable err entries) \<Rightarrow> Inl err
      | Some _ \<Rightarrow> Inl (SystemError (js ''ENOTDIR: not a directory, scandir '' @ [0x27] @ p @ [0x27])))"

fun isDirectory :: "fsnode \<Rightarrow> bool" where
  "isDirectory (Directory _) = True"
| "isDirectory (Unreadable _ _) = True"
| "isDirectory _ = False"

fun isFile :: "fsnode \<Rightarrow> bool" where
  "isFile RegularFile = True"
| "isFile _ = False"

definition warnScan :: "jsstring \<Rightarrow> error \<Rightarrow> event" where
  "warnScan currentPath err =
     ConsoleWarn [js ''Could not scan directory '' @ currentPath @ js '':'', message err]"

text \<open>
  \<open>scanDirectory\<close> is the inner function of \<open>findPngFiles\<close>, \<open>scanEntries\<close> the loop over
  the entries in its \<open>try\<close> block. Both take the shared list \<open>pngFiles\<close> and return it
  updated, with the events of the call; the first component is \<open>Inl\<close> when the call
  throws.
\<close>

function scanDirectory ::
    "jsstring \<Rightarrow> fsnode option \<Rightarrow> jsstring list \<Rightarrow> (error + unit) \<times> jsstring list \<times> event list"
  and scanEntries ::
    "jsstring \<Rightarrow> (jsstring \<times> fsnode) list \<Rightarrow> jsstring list \<Rightarrow> (error + unit) \<times> jsstring list \<times> event list"
where
  "scanDirectory currentPath node pngFiles =
     (case readdir currentPath node of
        Inl err \<Rightarrow> (Inr (), pngFiles, [FsReaddir currentPath, warnScan currentPath err])
      | Inr entries \<Rightarrow>
          (case scanEntries currentPath entries pngFiles of
             (Inl err, files, evs) \<Rightarrow>
               (Inr (), files, FsReaddir currentPath # evs @ [warnScan currentPath err])
           | (Inr u, files, evs) \<Rightarrow> (Inr (), files, FsReaddir currentPath # evs)))"
| "scanEntries currentPath [] pngFiles = (Inr (), pngFiles, [])"
| "scanEntries currentPath ((name, child) # entries) pngFiles =
     (let fullPath = path_join currentPath name
      in if isDirectory child then
           (case scanDirectory fullPath (Some child) pngFiles of
              (Inl err, files, evs) \<Rightarrow> (Inl err, files, evs)
            | (Inr u, files, evs) \<Rightarrow>
                (case scanEntries currentPath entries files of
                   (r, files', evs') \<Rightarrow> (r, files', evs @ evs')))
         else if isFile child \<and> endsWith (toLowerCase name) (js ''.png'') then
           scanEntries currentPath entries (pngFiles @ [fullPath])
         else scanEntries currentPath entries pngFiles)"
  by pat_completeness auto
termination
proof (relation "measure (\<lambda>x. case x of
           Inl (p, node, files) \<Rightarrow> size_option size node
         | Inr (p, entries, files) \<Rightarrow> size_list (size_prod (\<lambda>_. 0) size) entries)")
  show "wf (measure (\<lambda>x. case x of
           Inl (p, node, files) \<Rightarrow> size_option size node
         | Inr (p, entries, files) \<Rightarrow> size_list (size_prod (\<lambda>_. 0) size) entries))"
    by simp
qed (auto simp: readdir_def split: option.splits fsnode.splits)

declare scanDirectory.simps [simp del]

definition findPngFiles :: "world \<Rightarrow> jsstring \<Rightarrow> (error + jsstring list) \<times> event list" where
  "findPngFiles w directoryPath =
     (case scanDirectory directoryPath (fs w directoryPath) [] of
        (Inl err, pngFiles, evs) \<Rightarrow> (Inl err, evs)
      | (Inr u, pngFiles, evs) \<Rightarrow> (Inr pngFiles, evs))"

section \<open>The upload client\<close>

record uploader =
  serviceDomain :: jsstring
  apiKey :: jsstring
  baseUrl :: jsstring

definition MicroCMSUploader :: "jsstring \<Rightarrow> jsstring \<Rightarrow> uploader" where
  "MicroCMSUploader domain key =
     \<lparr>serviceDomain = domain, apiKey = key,
      baseUrl = js ''https://'' @ domain @ js ''.microcms-management.io''\<rparr>"

text \<open>The \<open>switch\<close> on the lower-cased extension.\<close>

definition contentTypeOf :: "jsstring \<Rightarrow> error + jsstring" where
  "contentTypeOf fileExtension =
     (if fileExtension = js ''.png'' then Inr (js ''image/png'')
      else if fileExtension = js ''.jpg'' \<or> fileExtension = js ''.jpeg''
        then Inr (js ''image/jpeg'')
      else Inl (Error (js ''Unsupported file type: '' @ fileExtension)))"

definition CRLF :: jsstring where
  "CRLF = [0x0D, 0x0A]"

definition formBoundary :: "nat \<Rightarrow> jsstring" where
  "formBoundary t = js ''----formdata-boundary-'' @ decimal t"

definition formData :: "jsstring \<Rightarrow> jsstring \<Rightarrow> jsstring \<Rightarrow> buffer \<Rightarrow> jsstring" where
  "formData boundary name contentType fileBuffer =
     joinWith CRLF
       [js ''--'' @ boundary,
        js ''Content-Disposition: form-data; name=\"file\"; filename=\"'' @ name @ js ''\"'',
        js ''Content-Type: '' @ contentType,
        [],
        toString_binary fileBuffer,
        js ''--'' @ boundary @ js ''--'']"

definition mediaRequest :: "uploader \<Rightarrow> jsstring \<Rightarrow> jsstring \<Rightarrow> request" where
  "mediaRequest u boundary form =
     \<lparr>url = baseUrl u @ js ''/api/v1/media'',
      http_method = js ''POST'',
      headers =
        [(js ''X-MICROCMS-API-KEY'', apiKey u),
         (js ''Content-Type'', js ''multipart/form-data; boundary='' @ boundary),
         (js ''Content-Length'', decimal (byteLength_binary form))],
      body = Buffer_from_binary form\<rparr>"

definition ok :: "response \<Rightarrow> bool" where
  "ok r = (200 \<le> status r \<and> status r \<le> 299)"

definition uploadFailed :: "response \<Rightarrow> error" where
  "uploadFailed r =
     Error (js ''Upload failed: '' @ decimal (status r) @ js '' '' @ statusText r
            @ js '' - '' @ bodyText r)"

text \<open>The \<open>try\<close> block of \<open>uploadImage\<close>: its outcome and the events up to it.\<close>

definition uploadImage_body ::
    "world \<Rightarrow> uploader \<Rightarrow> jsstring \<Rightarrow> (error + json option) \<times> event list" where
  "uploadImage_body w u filePath =
     (case readFile w filePath of
        Inl err \<Rightarrow> (Inl err, [FsReadFile filePath])
      | Inr fileBuffer \<Rightarrow>
          (let name = basename filePath;
               fileExtension = toLowerCase (extname filePath)
           in case contentTypeOf fileExtension of
                Inl err \<Rightarrow> (Inl err, [FsReadFile filePath])
              | Inr contentType \<Rightarrow>
                  (let boundary = formBoundary (now w);
                       form = formData boundary name contentType fileBuffer;
                       req = mediaRequest u boundary form;
                       evs = [FsReadFile filePath, DateNow, Fetch req]
                   in case fetch w req of
                        Inl err \<Rightarrow> (Inl err, evs)
                      | Inr resp \<Rightarrow>
                          if \<not> ok resp then (Inl (uploadFailed resp), evs)
                          else
                            (case JSON_parse w (bodyText resp) of
                               Inl err \<Rightarrow> (Inl err, evs)
                             | Inr result \<Rightarrow>
                                 (case get_url result of
                                    Inl err \<Rightarrow> (Inl err, evs)
                                  | Inr v \<Rightarrow> (Inr v, evs))))))"

text \<open>\<open>uploadImage\<close>: the \<open>catch\<close> logs the error and throws it again.\<close>

definition uploadImage ::
    "world \<Rightarrow> uploader \<Rightarrow> jsstring \<Rightarrow> (error + json option) \<times> event list" where
  "uploadImage w u filePath =
     (case uploadImage_body w u filePath of
        (Inl err, evs) \<Rightarrow>
          (Inl err,
           evs @ [ConsoleError [js ''Failed to upload '' @ filePath @ js '':'', message err]])
      | (Inr v, evs) \<Rightarrow> (Inr v, evs))"

section \<open>The batch runner\<close>

definition checkMark :: codeunit where
  "checkMark = 0x2713"

definition ballotX :: codeunit where
  "ballotX = 0x2717"

text \<open>
  The \<open>for\<close> loop of \<open>uploadDirectory\<close> over the files not yet visited, with the list
  \<open>uploadResults\<close> built so far.
\<close>

fun uploadEach ::
    "world \<Rightarrow> uploader \<Rightarrow> jsstring \<Rightarrow> jsstring list \<Rightarrow> upload_result list
      \<Rightarrow> upload_result list \<times> event list" where
  "uploadEach w u directoryPath [] uploadResults = (uploadResults, [])"
| "uploadEach w u directoryPath (filePath # rest) uploadResults =
     (let name = basename filePath;
          rel = path_relative (cwd w) directoryPath filePath
      in case uploadImage w u filePath of
           (Inr v, evs) \<Rightarrow>
             (case uploadEach w u directoryPath rest (uploadResults @ [Success name rel v]) of
                (rs, evs') \<Rightarrow>
                  (rs, evs
                       @ [ConsoleLog [checkMark # js '' Uploaded: '' @ rel @ js '' -> ''
                                      @ String_of v]]
                       @ evs'))
         | (Inl err, evs) \<Rightarrow>
             (case uploadEach w u directoryPath rest
                     (uploadResults @ [Failure name rel (message err)]) of
                (rs, evs') \<Rightarrow>
                  (rs, evs
                       @ [ConsoleError [ballotX # js '' Failed: '' @ rel @ js '' - ''
                                        @ message err]]
                       @ evs')))"

definition uploadDirectory ::
    "world \<Rightarrow> uploader \<Rightarrow> jsstring \<Rightarrow> (error + upload_result list) \<times> event list" where
  "uploadDirectory w u directoryPath =
     (case findPngFiles w directoryPath of
        (Inl err, evs) \<Rightarrow>
          (Inl err, evs @ [ConsoleError [js ''Failed to process directory:'', message err]])
      | (Inr pngFiles, evs) \<Rightarrow>
          if length pngFiles = 0 then
            (Inr [], evs @ [ConsoleLog [js ''No PNG files found in directory and subdirectories'']])
          else
            (case uploadEach w u directoryPath pngFiles [] of
               (uploadResults, evs') \<Rightarrow>
                 (Inr uploadResults,
                  evs @ [ConsoleLog [js ''Found '' @ decimal (length pngFiles)
                                     @ js '' PNG files to upload'']]
                      @ evs')))"

section \<open>The entry point\<close>

text \<open>A value of \<open>process.env\<close> is falsy when it is \<open>undefined\<close> or the empty string.\<close>

definition falsy :: "jsstring option \<Rightarrow> bool" where
  "falsy v = (case v of None \<Rightarrow> True | Some s \<Rightarrow> s = [])"

definition envString :: "jsstring option \<Rightarrow> jsstring" where
  "envString v = (case v of None \<Rightarrow> js ''undefined'' | Some s \<Rightarrow> s)"

text \<open>\<open>fs.access(path)\<close> fails when nothing stands at the path.\<close>

definition access :: "world \<Rightarrow> jsstring \<Rightarrow> error + unit" where
  "access w p =
     (case fs w p of
        None \<Rightarrow> Inl (SystemError (js ''ENOENT: no such file or directory, access '' @ [0x27] @ p @ [0x27]))
      | Some _ \<Rightarrow> Inr ())"

definition screenshotsPath :: jsstring where
  "screenshotsPath = js ''/tmp/playwright-mcp-output''"

definition summaryEvents :: "world \<Rightarrow> upload_result list \<Rightarrow> event list" where
  "summaryEvents w results =
     (let successfulUploads = filter success results;
          failedUploads = filter (\<lambda>r. \<not> success r) results
      in [ConsoleLog [0x0A # js ''Upload Summary:''],
          ConsoleLog [checkMark # js '' Successful: '' @ decimal (length successfulUploads)],
          ConsoleLog [ballotX # js '' Failed: '' @ decimal (length failedUploads)]]
         @ (if env w (js ''GITHUB_ACTIONS'') = Some (js ''true'') then
              [ConsoleLog [0x0A # js ''--- UPLOAD_RESULTS_JSON ---''],
               ConsoleLogJSON successfulUploads failedUploads (length results),
               ConsoleLog [js ''--- END_UPLOAD_RESULTS_JSON ---'']]
            else []))"

text \<open>
  \<open>main\<close>: the exit code of the process and the events of the run. \<open>process.exit\<close> ends
  the run where it is called; a run that reaches the end of \<open>main\<close> exits with code 0.
\<close>

definition main :: "world \<Rightarrow> nat \<times> event list" where
  "main w =
     (let domain = env w (js ''MICROCMS_SERVICE_DOMAIN'');
          key = env w (js ''MICROCMS_API_KEY'')
      in if falsy domain \<or> falsy key then
           (1, [ConsoleError [js ''Error: MICROCMS_SERVICE_DOMAIN and MICROCMS_API_KEY environment variables are required'']])
         else
           (let u = MicroCMSUploader (envString domain) (envString key)
            in case access w screenshotsPath of
                 Inl err \<Rightarrow>
                   (0, [FsAccess screenshotsPath,
                        ConsoleLog [js ''Screenshots directory not found: '' @ screenshotsPath]])
               | Inr _ \<Rightarrow>
                   (case uploadDirectory w u screenshotsPath of
                      (Inl err, evs) \<Rightarrow>
                        (1, [FsAccess screenshotsPath,
                             ConsoleLog [js ''Uploading screenshots from: '' @ screenshotsPath]]
                            @ evs
                            @ [ConsoleError [js ''Upload script failed:'', message err]])
                    | (Inr results, evs) \<Rightarrow>
                        (if length (filter (\<lambda>r. \<not> success r) results) > 0 then 1 else 0,
                         [FsAccess screenshotsPath,
                          ConsoleLog [js ''Uploading screenshots from: '' @ screenshotsPath]]
                         @ evs @ summaryEvents w results))))"

section \<open>Notions of the specification\<close>

text \<open>
  Every regular file on the disk below a directory, with its path and its name, in the
  order of the listings; the entries of a directory that cannot be listed are on the
  disk too.
\<close>

function regularFiles :: "jsstring \<Rightarrow> (jsstring \<times> fsnode) list \<Rightarrow> (jsstring \<times> jsstring) list" where
  "regularFiles dir [] = []"
| "regularFiles dir ((name, child) # entries) =
     (case child of
        RegularFile \<Rightarrow> [(path_join dir name, name)]
      | Directory sub \<Rightarrow> regularFiles (path_join dir name) sub
      | Unreadable err sub \<Rightarrow> regularFiles (path_join dir name) sub
      | Special \<Rightarrow> [])
     @ regularFiles dir entries"
  by pat_completeness auto
termination
  by (relation "measure (\<lambda>(dir, entries). size_list (size_prod (\<lambda>_. 0) size) entries)") auto

text \<open>
  The regular files that can be reached from a directory through directories whose
  listing succeeds.
\<close>

function reachableFiles :: "jsstring \<Rightarrow> (jsstring \<times> fsnode) list \<Rightarrow> (jsstring \<times> jsstring) list" where
  "reachableFiles dir [] = []"
| "reachableFiles dir ((name, child) # entries) =
     (case child of
        RegularFile \<Rightarrow> [(path_join dir name, name)]
      | Directory sub \<Rightarrow> reachableFiles (path_join dir name) sub
      | Unreadable err sub \<Rightarrow> []
      | Special \<Rightarrow> [])
     @ reachableFiles dir entries"
  by pat_completeness auto
termination
  by (relation "measure (\<lambda>(dir, entries). size_list (size_prod (\<lambda>_. 0) size) entries)") auto

text \<open>Every directory below can be listed.\<close>

function allReadable :: "(jsstring \<times> fsnode) list \<Rightarrow> bool" where
  "allReadable [] = True"
| "allReadable ((name, child) # entries) =
     ((case child of
         Directory sub \<Rightarrow> allReadable sub
       | Unreadable err sub \<Rightarrow> False
       | _ \<Rightarrow> True)
      \<and> allReadable entries)"
  by pat_completeness auto
termination
  by (relation "measure (size_list (size_prod (\<lambda>_. 0) size))") auto

text \<open>The same three notions for the node found at a root path.\<close>

definition filesOfTree :: "jsstring \<Rightarrow> fsnode option \<Rightarrow> (jsstring \<times> jsstring) list" where
  "filesOfTree root node =
     (case node of
        Some (Directory entries) \<Rightarrow> regularFiles root entries
      | Some (Unreadable err entries) \<Rightarrow> regularFiles root entries
      | _ \<Rightarrow> [])"

definition reachableOfTree :: "jsstring \<Rightarrow> fsnode option \<Rightarrow> (jsstring \<times> jsstring) list" where
  "reachableOfTree root node =
     (case node of
        Some (Directory entries) \<Rightarrow> reachableFiles root entries
      | _ \<Rightarrow> [])"

definition readableTree :: "fsnode option \<Rightarrow> bool" where
  "readableTree node =
     (case node of
        Some (Directory entries) \<Rightarrow> allReadable entries
      | Some (Unreadable err entries) \<Rightarrow> False
      | _ \<Rightarrow> True)"

text \<open>The paths of the files whose name, lower-cased, ends in \<open>.png\<close>.\<close>

definition pngPaths :: "(jsstring \<times> jsstring) list \<Rightarrow> jsstring list" where
  "pngPaths files = map fst (filter (\<lambda>f. endsWith (toLowerCase (snd f)) (js ''.png'')) files)"

text \<open>
  The files a run has opened, and the requests it has sent, in the order of the run.
  Reading the file is the first step of every upload attempt.
\<close>

fun filesRead :: "event list \<Rightarrow> jsstring list" where
  "filesRead [] = []"
| "filesRead (FsReadFile p # evs) = p # filesRead evs"
| "filesRead (_ # evs) = filesRead evs"

fun fetches :: "event list \<Rightarrow> request list" where
  "fetches [] = []"
| "fetches (Fetch r # evs) = r # fetches evs"
| "fetches (_ # evs) = fetches evs"


text \<open>
  A multipart/form-data body as a value: the parts, each with its name, file name,
  content type and data, and the serialisation of a list of parts between the
  delimiters of a boundary.
\<close>

record form_part =
  partName :: jsstring
  partFilename :: jsstring
  partContentType :: jsstring
  partData :: jsstring

definition encodePart :: "jsstring \<Rightarrow> form_part \<Rightarrow> jsstring" where
  "encodePart boundary pt =
     js ''--'' @ boundary @ CRLF
     @ js ''Content-Disposition: form-data; name=\"'' @ partName pt
     @ js ''\"; filename=\"'' @ partFilename pt @ js ''\"'' @ CRLF
     @ js ''Content-Type: '' @ partContentType pt @ CRLF
     @ CRLF
     @ partData pt @ CRLF"

definition multipart :: "jsstring \<Rightarrow> form_part list \<Rightarrow> jsstring" where
  "multipart boundary parts =
     concat (map (encodePart boundary) parts) @ js ''--'' @ boundary @ js ''--''"

text \<open>
  The calls a run makes to the file system, the clock and the network: its events that
  are not lines on the console.
\<close>

fun isConsole :: "event \<Rightarrow> bool" where
  "isConsole (ConsoleLog _) = True"
| "isConsole (ConsoleWarn _) = True"
| "isConsole (ConsoleError _) = True"
| "isConsole (ConsoleLogJSON _ _ _) = True"
| "isConsole _ = False"

definition ioCalls :: "event list \<Rightarrow> event list" where
  "ioCalls evs = filter (\<lambda>e. \<not> isConsole e) evs"

text \<open>The line \<open>main\<close> prints when a credential is missing.\<close>

definition credentialsError :: event where
  "credentialsError =
     ConsoleError [js ''Error: MICROCMS_SERVICE_DOMAIN and MICROCMS_API_KEY environment variables are required'']"

text \<open>The uploader \<open>main\<close> builds from the environment.\<close>

definition envUploader :: "world \<Rightarrow> uploader" where
  "envUploader w =
     MicroCMSUploader (envString (env w (js ''MICROCMS_SERVICE_DOMAIN'')))
       (envString (env w (js ''MICROCMS_API_KEY'')))"

section \<open>A sample run\<close>

text \<open>
  A screenshots directory with two PNG files at the top, one in a subdirectory, one in
  a directory that cannot be listed, a symbolic link and a text file; the file in the
  subdirectory cannot be opened, and the media endpoint answers 200 with a URL.
\<close>

definition exampleTree :: fsnode where
  "exampleTree =
     Directory
       [(js ''a.png'', RegularFile),
        (js ''sub'', Directory [(js ''b.PNG'', RegularFile), (js ''notes.txt'', RegularFile)]),
        (js ''locked'',
         Unreadable (SystemError (js ''EACCES: permission denied, scandir''))
           [(js ''hidden.png'', RegularFile)]),
        (js ''link.png'', Special),
        (js ''c.png'', RegularFile)]"

definition exampleWorld :: world where
  "exampleWorld =
     \<lparr>env = (\<lambda>v. if v = js ''MICROCMS_SERVICE_DOMAIN'' then Some (js ''demo'')
                 else if v = js ''MICROCMS_API_KEY'' then Some (js ''secret'')
                 else None),
      cwd = js ''/home/runner'',
      fs = (\<lambda>p. if p = screenshotsPath then Some exampleTree else None),
      readFile = (\<lambda>p. if p = js ''/tmp/playwright-mcp-output/sub/b.PNG''
                      then Inl (SystemError (js ''EACCES: permission denied, open''))
                      else Inr [0x89, 0x50, 0x4E, 0x47]),
      now = 42,
      fetch = (\<lambda>r. Inr \<lparr>status = 200, statusText = js ''OK'',
                           bodyText = js ''{\"url\":\"https://x/y.png\"}''\<rparr>),
      JSON_parse = (\<lambda>s. if s = js ''{\"url\":\"https://x/y.png\"}''
                        then Inr (JObj [(js ''url'', JStr (js ''https://x/y.png''))])
                        else Inl (SyntaxError (js ''Unexpected token'')))\<rparr>"

definition exampleUploader :: uploader where
  "exampleUploader = MicroCMSUploader (js ''demo'') (js ''secret'')"

text \<open>The same directory without the entry that cannot be listed.\<close>

definition readableExample :: world where
  "readableExample =
     exampleWorld
       \<lparr>fs := (\<lambda>p. if p = screenshotsPath
                    then Some (Directory
                      [(js ''a.png'', RegularFile),
                       (js ''sub'',
                        Directory [(js ''b.PNG'', RegularFile), (js ''notes.txt'', RegularFile)]),
                       (js ''link.png'', Special),
                       (js ''c.png'', RegularFile)])
                    else None)\<rparr>"

text \<open>
  Variants of the sample run: no screenshots directory, no credentials, an API key set
  to the empty string, and a media endpoint that answers 500.
\<close>

definition absentWorld :: world where
  "absentWorld = exampleWorld\<lparr>fs := (\<lambda>p. None)\<rparr>"

definition noCredentials :: world where
  "noCredentials = exampleWorld\<lparr>env := (\<lambda>v. None)\<rparr>"

definition emptyKey :: world where
  "emptyKey = exampleWorld\<lparr>env := (env exampleWorld)(js ''MICROCMS_API_KEY'' := Some [])\<rparr>"

definition failingServer :: world where
  "failingServer =
     exampleWorld
       \<lparr>fetch := (\<lambda>r. Inr \<lparr>status = 500, statusText = js ''Internal Server Error'',
                             bodyText = js ''boom''\<rparr>)\<rparr>"

text \<open>
  A screenshot whose name starts with the code unit U+3042 (hiragana A), which is above
  0xFF, and the bytes of an ASCII literal.
\<close>

definition kanaPath :: jsstring where
  "kanaPath = js ''/tmp/playwright-mcp-output/'' @ [0x3042] @ js ''.png''"

definition ascii :: "string \<Rightarrow> buffer" where
  "ascii s = map of_char s"

section \<open>Discovery: auxiliary facts\<close>

lemma pngPaths_append: "pngPaths (xs @ ys) = pngPaths xs @ pngPaths ys"
  by (simp add: pngPaths_def)

lemma pngPaths_Nil: "pngPaths [] = []"
  by (simp add: pngPaths_def)


lemma fetches_append: "fetches (xs @ ys) = fetches xs @ fetches ys"
  by (induction xs rule: fetches.induct) simp_all

lemma readdir_Inr: "readdir p node = Inr entries \<longleftrightarrow> node = Some (Directory entries)"
  by (auto simp: readdir_def split: option.splits fsnode.splits)

lemma scan_result:
  "fst (scanDirectory p node acc) = Inr () \<and>
   fst (snd (scanDirectory p node acc)) = acc @ pngPaths (reachableOfTree p node)"
  "fst (scanEntries p entries acc) = Inr () \<and>
   fst (snd (scanEntries p entries acc)) = acc @ pngPaths (reachableFiles p entries)"
proof (induction p node acc and p entries acc rule: scanDirectory_scanEntries.induct)
  case (1 currentPath node pngFiles)
  show ?case
  proof (cases "readdir currentPath node")
    case (Inl err)
    then have "reachableOfTree currentPath node = []"
      by (auto simp: readdir_def reachableOfTree_def split: option.splits fsnode.splits)
    with Inl show ?thesis
      by (simp add: scanDirectory.simps pngPaths_Nil)
  next
    case (Inr entries)
    then have node: "node = Some (Directory entries)"
      by (simp add: readdir_Inr)
    obtain r files evs where se: "scanEntries currentPath entries pngFiles = (r, files, evs)"
      by (cases "scanEntries currentPath entries pngFiles") auto
    with "1.IH" Inr have "r = Inr ()"
      and "files = pngFiles @ pngPaths (reachableFiles currentPath entries)"
      by auto
    then show ?thesis
      by (simp add: scanDirectory.simps se node readdir_def reachableOfTree_def)
  qed
next
  case (2 currentPath pngFiles)
  show ?case by (simp add: pngPaths_Nil)
next
  case (3 currentPath name child entries pngFiles)
  let ?full = "path_join currentPath name"
  show ?case
  proof (cases "isDirectory child")
    case True
    obtain r files evs where sd: "scanDirectory ?full (Some child) pngFiles = (r, files, evs)"
      by (cases "scanDirectory ?full (Some child) pngFiles") auto
    with "3.IH"(1) True have r: "r = Inr ()"
      and files: "files = pngFiles @ pngPaths (reachableOfTree ?full (Some child))"
      by auto
    obtain r' files' evs' where se: "scanEntries currentPath entries files = (r', files', evs')"
      by (cases "scanEntries currentPath entries files") auto
    with "3.IH"(2) True sd r have "r' = Inr ()"
      and "files' = files @ pngPaths (reachableFiles currentPath entries)"
      by auto
    moreover have "reachableFiles currentPath ((name, child) # entries) =
        reachableOfTree ?full (Some child) @ reachableFiles currentPath entries"
      using True by (cases child) (simp_all add: reachableOfTree_def)
    ultimately show ?thesis
      using True sd r files se by (simp add: pngPaths_append)
  next
    case False
    show ?thesis
    proof (cases "isFile child \<and> endsWith (toLowerCase name) (js ''.png'')")
      case True
      then have "child = RegularFile"
        by (cases child) simp_all
      with True "3.IH"(3) \<open>\<not> isDirectory child\<close> show ?thesis
        by (simp add: pngPaths_def)
    next
      case no: False
      have "pngPaths (reachableFiles currentPath ((name, child) # entries)) =
          pngPaths (reachableFiles currentPath entries)"
        using False no by (cases child) (simp_all add: pngPaths_def)
      with no "3.IH"(4) False show ?thesis
        by auto
    qed
  qed
qed



lemma reachable_when_readable:
  "allReadable entries \<Longrightarrow> reachableFiles dir entries = regularFiles dir entries"
  by (induction dir entries rule: regularFiles.induct) (auto split: fsnode.splits)




section \<open>The batch runner: auxiliary facts\<close>





lemma findPngFiles_result:
  "fst (findPngFiles w d) = Inr (pngPaths (reachableOfTree d (fs w d)))"
  using scan_result(1) [of d "fs w d" "[]"]
  by (auto simp add: findPngFiles_def split: prod.splits sum.splits)


section \<open>The upload client and the entry point: auxiliary facts\<close>

lemma binary_roundtrip: "Buffer_from_binary (toString_binary buf) = buf"
proof -
  have "ucast (ucast x :: 16 word) = x" for x :: "8 word"
    by (simp add: ucast_up_ucast_id is_up)
  then show ?thesis
    by (simp add: Buffer_from_binary_def toString_binary_def map_idI)
qed

lemma Buffer_from_binary_append:
  "Buffer_from_binary (xs @ ys) = Buffer_from_binary xs @ Buffer_from_binary ys"
  by (simp add: Buffer_from_binary_def)

lemma formData_multipart:
  "formData boundary name contentType fileBuffer =
     multipart boundary
       [\<lparr>partName = js ''file'', partFilename = name, partContentType = contentType,
         partData = toString_binary fileBuffer\<rparr>]"
  by (simp add: formData_def multipart_def encodePart_def js_def)

lemma uploadImage_fst: "fst (uploadImage w u p) = fst (uploadImage_body w u p)"
  by (auto simp: uploadImage_def split: prod.splits sum.splits)

lemma uploadImage_fetches:
  "fetches (snd (uploadImage w u p)) = fetches (snd (uploadImage_body w u p))"
  by (auto simp: uploadImage_def fetches_append split: prod.splits sum.splits)

lemma uploadImage_body_supported:
  assumes "readFile w p = Inr buf"
    and "contentTypeOf (toLowerCase (extname p)) = Inr ct"
  shows "snd (uploadImage_body w u p) =
      [FsReadFile p, DateNow,
       Fetch (mediaRequest u (formBoundary (now w))
                (formData (formBoundary (now w)) (basename p) ct buf))]"
    and "fst (uploadImage_body w u p) =
      (case fetch w (mediaRequest u (formBoundary (now w))
                (formData (formBoundary (now w)) (basename p) ct buf)) of
         Inl err \<Rightarrow> Inl err
       | Inr resp \<Rightarrow>
           if \<not> ok resp then Inl (uploadFailed resp)
           else (case JSON_parse w (bodyText resp) of
                   Inl err \<Rightarrow> Inl err
                 | Inr result \<Rightarrow> get_url result))"
  using assms by (auto simp: uploadImage_body_def Let_def split: sum.splits)

lemma uploadImage_body_unsupported:
  assumes "contentTypeOf (toLowerCase (extname p)) = Inl err"
  shows "fetches (snd (uploadImage_body w u p)) = []"
    and "readFile w p = Inr buf \<Longrightarrow> fst (uploadImage_body w u p) = Inl err"
  using assms by (auto simp: uploadImage_body_def Let_def split: sum.splits)

lemma main_falsy:
  "falsy (env w (js ''MICROCMS_SERVICE_DOMAIN'')) \<or> falsy (env w (js ''MICROCMS_API_KEY''))
   \<Longrightarrow> main w = (1, [credentialsError])"
  by (simp add: main_def credentialsError_def Let_def)

lemma main_absent:
  "\<not> falsy (env w (js ''MICROCMS_SERVICE_DOMAIN'')) \<Longrightarrow> \<not> falsy (env w (js ''MICROCMS_API_KEY''))
   \<Longrightarrow> fs w screenshotsPath = None
   \<Longrightarrow> main w =
     (0, [FsAccess screenshotsPath,
          ConsoleLog [js ''Screenshots directory not found: '' @ screenshotsPath]])"
  by (simp add: main_def Let_def access_def)

lemma main_present:
  "\<not> falsy (env w (js ''MICROCMS_SERVICE_DOMAIN'')) \<Longrightarrow> \<not> falsy (env w (js ''MICROCMS_API_KEY''))
   \<Longrightarrow> fs w screenshotsPath = Some node
   \<Longrightarrow> fst (main w) =
     (case fst (uploadDirectory w (envUploader w) screenshotsPath) of
        Inl err \<Rightarrow> 1
      | Inr results \<Rightarrow> if list_all success results then 0 else 1)"
  by (auto simp add: main_def Let_def access_def envUploader_def list_all_iff filter_empty_conv
      split: prod.splits sum.splits)

section \<open>File discovery: results\<close>

text \<open>
  C3, as the code has it: \<open>findPngFiles\<close> returns, in the order of the listings, the
  paths of exactly the regular files whose name, lower-cased, ends in \<open>.png\<close> and that
  can be reached from the root through directories whose listing succeeds. When every
  directory can be listed, these are all such files of the tree and none of the others.
\<close>

theorem findPngFiles_reachable_png:
  "fst (findPngFiles w d) = Inr (pngPaths (reachableOfTree d (fs w d)))
   \<and> (readableTree (fs w d) \<longrightarrow>
        fst (findPngFiles w d) = Inr (pngPaths (filesOfTree d (fs w d))))"
proof -
  have "reachableOfTree d (fs w d) = filesOfTree d (fs w d)" if "readableTree (fs w d)"
    using that
    by (auto simp: readableTree_def reachableOfTree_def filesOfTree_def reachable_when_readable
        split: option.splits fsnode.splits)
  then show ?thesis
    by (simp add: findPngFiles_result)
qed

theorem findPngFiles_reachable_png_witness:
  "readableTree (fs readableExample screenshotsPath)
   \<and> pngPaths (filesOfTree screenshotsPath (fs readableExample screenshotsPath)) =
     [js ''/tmp/playwright-mcp-output/a.png'', js ''/tmp/playwright-mcp-output/sub/b.PNG'',
      js ''/tmp/playwright-mcp-output/c.png'']
   \<and> fst (findPngFiles readableExample screenshotsPath) =
     Inr [js ''/tmp/playwright-mcp-output/a.png'', js ''/tmp/playwright-mcp-output/sub/b.PNG'',
          js ''/tmp/playwright-mcp-output/c.png'']"
proof -
  have readable: "readableTree (fs readableExample screenshotsPath)"
    by code_simp
  have files: "pngPaths (filesOfTree screenshotsPath (fs readableExample screenshotsPath)) =
     [js ''/tmp/playwright-mcp-output/a.png'', js ''/tmp/playwright-mcp-output/sub/b.PNG'',
      js ''/tmp/playwright-mcp-output/c.png'']"
    by code_simp
  from findPngFiles_reachable_png [of readableExample screenshotsPath] readable
  have "fst (findPngFiles readableExample screenshotsPath) =
      Inr (pngPaths (filesOfTree screenshotsPath (fs readableExample screenshotsPath)))"
    by blast
  with readable files show ?thesis
    by simp
qed

text \<open>
  C3 as stated fails where a directory cannot be listed: in the sample run the tree holds
  four regular files with a PNG name, and \<open>findPngFiles\<close> returns three of them; the
  one below the directory \<open>locked\<close> is missing.
\<close>

theorem findPngFiles_misses_unreadable:
  "pngPaths (filesOfTree screenshotsPath (fs exampleWorld screenshotsPath)) =
     [js ''/tmp/playwright-mcp-output/a.png'', js ''/tmp/playwright-mcp-output/sub/b.PNG'',
      js ''/tmp/playwright-mcp-output/locked/hidden.png'',
      js ''/tmp/playwright-mcp-output/c.png'']
   \<and> fst (findPngFiles exampleWorld screenshotsPath) =
     Inr [js ''/tmp/playwright-mcp-output/a.png'', js ''/tmp/playwright-mcp-output/sub/b.PNG'',
          js ''/tmp/playwright-mcp-output/c.png'']"
  by code_simp



section \<open>The batch runner: results\<close>



section \<open>The upload client: results\<close>

text \<open>
  C4: when the file was read, its type is supported and the request got a response:
  if the status is outside 200 to 299, \<open>uploadImage\<close> throws an error whose message is
  made of the status code, the status text and the body text of the response; if the
  status is inside, it parses the body as JSON and returns the \<open>url\<close> member of the
  parsed value.
\<close>

theorem uploadImage_response:
  assumes "readFile w p = Inr buf"
    and "contentTypeOf (toLowerCase (extname p)) = Inr ct"
    and "fetch w (mediaRequest u (formBoundary (now w))
            (formData (formBoundary (now w)) (basename p) ct buf)) = Inr resp"
  shows "(\<not> (200 \<le> status resp \<and> status resp \<le> 299) \<longrightarrow>
            fst (uploadImage w u p) =
              Inl (Error (js ''Upload failed: '' @ decimal (status resp) @ js '' ''
                          @ statusText resp @ js '' - '' @ bodyText resp)))
       \<and> (200 \<le> status resp \<and> status resp \<le> 299 \<longrightarrow>
            fst (uploadImage w u p) =
              (case JSON_parse w (bodyText resp) of
                 Inl err \<Rightarrow> Inl err
               | Inr result \<Rightarrow> get_url result))
       \<and> (200 \<le> status resp \<and> status resp \<le> 299
            \<and> JSON_parse w (bodyText resp) = Inr (JObj members) \<longrightarrow>
            fst (uploadImage w u p) = Inr (map_of members (js ''url'')))"
  using uploadImage_body_supported(2) [OF assms(1,2), of u] assms(3)
  by (simp add: uploadImage_fst ok_def uploadFailed_def get_url_def)

theorem uploadImage_response_witness:
  "fst (uploadImage failingServer exampleUploader (js ''/tmp/playwright-mcp-output/a.png'')) =
     Inl (Error (js ''Upload failed: 500 Internal Server Error - boom''))
   \<and> fst (uploadImage exampleWorld exampleUploader (js ''/tmp/playwright-mcp-output/a.png'')) =
     Inr (Some (JStr (js ''https://x/y.png'')))"
proof -
  let ?p = "js ''/tmp/playwright-mcp-output/a.png''"
  let ?buf = "[0x89, 0x50, 0x4E, 0x47] :: buffer"
  let ?bad = "\<lparr>status = 500, statusText = js ''Internal Server Error'', bodyText = js ''boom''\<rparr>"
  let ?good = "\<lparr>status = 200, statusText = js ''OK'',
      bodyText = js ''{\"url\":\"https://x/y.png\"}''\<rparr>"
  have read: "readFile failingServer ?p = Inr ?buf" "readFile exampleWorld ?p = Inr ?buf"
    by code_simp+
  have ct: "contentTypeOf (toLowerCase (extname ?p)) = Inr (js ''image/png'')"
    by code_simp
  have bad: "fetch failingServer r = Inr ?bad" for r
    by (simp add: failingServer_def)
  have good: "fetch exampleWorld r = Inr ?good" for r
    by (simp add: exampleWorld_def)
  have msg: "js ''Upload failed: '' @ decimal (status ?bad) @ js '' '' @ statusText ?bad
      @ js '' - '' @ bodyText ?bad = js ''Upload failed: 500 Internal Server Error - boom''"
    by code_simp
  have parsed: "JSON_parse exampleWorld (bodyText ?good) =
      Inr (JObj [(js ''url'', JStr (js ''https://x/y.png''))])"
    by code_simp
  have range: "\<not> (200 \<le> status ?bad \<and> status ?bad \<le> 299)"
    "200 \<le> status ?good \<and> status ?good \<le> 299"
    by simp_all
  have url: "map_of [(js ''url'', JStr (js ''https://x/y.png''))] (js ''url'') =
      Some (JStr (js ''https://x/y.png''))"
    by simp
  have "fst (uploadImage failingServer exampleUploader ?p) =
      Inl (Error (js ''Upload failed: '' @ decimal (status ?bad) @ js '' '' @ statusText ?bad
        @ js '' - '' @ bodyText ?bad))"
    using uploadImage_response [OF read(1) ct bad, of exampleUploader] range(1) by blast
  moreover have "fst (uploadImage exampleWorld exampleUploader ?p) =
      Inr (map_of [(js ''url'', JStr (js ''https://x/y.png''))] (js ''url''))"
    using uploadImage_response [OF read(2) ct good, of exampleUploader] range(2) parsed
    by blast
  ultimately show ?thesis
    unfolding msg url by simp
qed

text \<open>
  C6: for every file path, \<open>uploadImage\<close> takes the content type from the lower-cased
  extension: \<open>.png\<close> gives \<open>image/png\<close>, \<open>.jpg\<close> and \<open>.jpeg\<close> give \<open>image/jpeg\<close>, in the
  one request it sends; with any other extension it throws the error
  \<open>Unsupported file type\<close> and sends no request.
\<close>

theorem uploadImage_content_type:
  "(readFile w p = Inr buf \<and> toLowerCase (extname p) = js ''.png'' \<longrightarrow>
      fetches (snd (uploadImage w u p)) =
        [mediaRequest u (formBoundary (now w))
           (formData (formBoundary (now w)) (basename p) (js ''image/png'') buf)])
   \<and> (readFile w p = Inr buf
        \<and> (toLowerCase (extname p) = js ''.jpg'' \<or> toLowerCase (extname p) = js ''.jpeg'') \<longrightarrow>
      fetches (snd (uploadImage w u p)) =
        [mediaRequest u (formBoundary (now w))
           (formData (formBoundary (now w)) (basename p) (js ''image/jpeg'') buf)])
   \<and> (readFile w p = Inr buf
        \<and> toLowerCase (extname p) \<noteq> js ''.png'' \<and> toLowerCase (extname p) \<noteq> js ''.jpg''
        \<and> toLowerCase (extname p) \<noteq> js ''.jpeg'' \<longrightarrow>
      fst (uploadImage w u p) =
        Inl (Error (js ''Unsupported file type: '' @ toLowerCase (extname p))))
   \<and> (toLowerCase (extname p) \<noteq> js ''.png'' \<and> toLowerCase (extname p) \<noteq> js ''.jpg''
        \<and> toLowerCase (extname p) \<noteq> js ''.jpeg'' \<longrightarrow>
      fetches (snd (uploadImage w u p)) = [])"
proof -
  let ?ext = "toLowerCase (extname p)"
  have png: "contentTypeOf ?ext = Inr (js ''image/png'')" if "?ext = js ''.png''"
    using that by (simp add: contentTypeOf_def)
  have jpeg: "contentTypeOf ?ext = Inr (js ''image/jpeg'')"
    if "?ext = js ''.jpg'' \<or> ?ext = js ''.jpeg''"
    using that by (auto simp add: contentTypeOf_def js_def)
  have other: "contentTypeOf ?ext = Inl (Error (js ''Unsupported file type: '' @ ?ext))"
    if "?ext \<noteq> js ''.png''" "?ext \<noteq> js ''.jpg''" "?ext \<noteq> js ''.jpeg''"
    using that by (simp add: contentTypeOf_def)
  show ?thesis
  proof (intro conjI impI; (elim conjE)?)
    assume "readFile w p = Inr buf" and "?ext = js ''.png''"
    then show "fetches (snd (uploadImage w u p)) =
        [mediaRequest u (formBoundary (now w))
           (formData (formBoundary (now w)) (basename p) (js ''image/png'') buf)]"
      using uploadImage_body_supported(1) png by (simp add: uploadImage_fetches)
  next
    assume "readFile w p = Inr buf" and "?ext = js ''.jpg'' \<or> ?ext = js ''.jpeg''"
    then show "fetches (snd (uploadImage w u p)) =
        [mediaRequest u (formBoundary (now w))
           (formData (formBoundary (now w)) (basename p) (js ''image/jpeg'') buf)]"
      using uploadImage_body_supported(1) jpeg by (simp add: uploadImage_fetches)
  next
    assume "readFile w p = Inr buf"
      and "?ext \<noteq> js ''.png''" "?ext \<noteq> js ''.jpg''" "?ext \<noteq> js ''.jpeg''"
    then show "fst (uploadImage w u p) =
        Inl (Error (js ''Unsupported file type: '' @ ?ext))"
      using uploadImage_body_unsupported(2) other by (simp add: uploadImage_fst)
  next
    assume "?ext \<noteq> js ''.png''" "?ext \<noteq> js ''.jpg''" "?ext \<noteq> js ''.jpeg''"
    then show "fetches (snd (uploadImage w u p)) = []"
      using uploadImage_body_unsupported(1) other by (simp add: uploadImage_fetches)
  qed
qed

theorem uploadImage_content_type_witness:
  "fetches (snd (uploadImage exampleWorld exampleUploader (js ''/tmp/playwright-mcp-output/a.png''))) =
     [mediaRequest exampleUploader (formBoundary 42)
        (formData (formBoundary 42) (js ''a.png'') (js ''image/png'') [0x89, 0x50, 0x4E, 0x47])]
   \<and> fetches (snd (uploadImage exampleWorld exampleUploader (js ''/tmp/shots/photo.JPG''))) =
     [mediaRequest exampleUploader (formBoundary 42)
        (formData (formBoundary 42) (js ''photo.JPG'') (js ''image/jpeg'') [0x89, 0x50, 0x4E, 0x47])]
   \<and> fst (uploadImage exampleWorld exampleUploader (js ''/tmp/shots/notes.txt'')) =
     Inl (Error (js ''Unsupported file type: .txt''))
   \<and> fetches (snd (uploadImage exampleWorld exampleUploader (js ''/tmp/shots/notes.txt''))) = []"
proof -
  let ?png = "js ''/tmp/playwright-mcp-output/a.png''"
  let ?jpg = "js ''/tmp/shots/photo.JPG''"
  let ?txt = "js ''/tmp/shots/notes.txt''"
  let ?buf = "[0x89, 0x50, 0x4E, 0x47] :: buffer"
  have read: "readFile exampleWorld ?png = Inr ?buf" "readFile exampleWorld ?jpg = Inr ?buf"
    "readFile exampleWorld ?txt = Inr ?buf"
    by code_simp+
  have ext: "toLowerCase (extname ?png) = js ''.png''" "toLowerCase (extname ?jpg) = js ''.jpg''"
    "toLowerCase (extname ?txt) = js ''.txt''"
    by code_simp+
  have other: "js ''.txt'' \<noteq> js ''.png''" "js ''.txt'' \<noteq> js ''.jpg''" "js ''.txt'' \<noteq> js ''.jpeg''"
    by (simp_all add: js_def)
  have names: "basename ?png = js ''a.png''" "basename ?jpg = js ''photo.JPG''"
    by code_simp+
  have clock: "now exampleWorld = 42"
    by (simp add: exampleWorld_def)
  have msg: "js ''Unsupported file type: '' @ js ''.txt'' = js ''Unsupported file type: .txt''"
    by (simp add: js_def)
  have "fetches (snd (uploadImage exampleWorld exampleUploader ?png)) =
     [mediaRequest exampleUploader (formBoundary (now exampleWorld))
        (formData (formBoundary (now exampleWorld)) (basename ?png) (js ''image/png'') ?buf)]"
    using uploadImage_content_type [of exampleWorld ?png ?buf exampleUploader] read(1) ext(1)
    by blast
  moreover have "fetches (snd (uploadImage exampleWorld exampleUploader ?jpg)) =
     [mediaRequest exampleUploader (formBoundary (now exampleWorld))
        (formData (formBoundary (now exampleWorld)) (basename ?jpg) (js ''image/jpeg'') ?buf)]"
    using uploadImage_content_type [of exampleWorld ?jpg ?buf exampleUploader] read(2) ext(2)
    by blast
  moreover have "fst (uploadImage exampleWorld exampleUploader ?txt) =
      Inl (Error (js ''Unsupported file type: '' @ toLowerCase (extname ?txt)))"
    and "fetches (snd (uploadImage exampleWorld exampleUploader ?txt)) = []"
    using uploadImage_content_type [of exampleWorld ?txt ?buf exampleUploader] read(3) other
    unfolding ext(3) by blast+
  ultimately show ?thesis
    unfolding names clock ext(3) msg by simp
qed

text \<open>
  The form built for a file whose content type is \<open>image/png\<close> is the serialisation of
  one part, whose name is \<open>file\<close> and whose file name is the basename of the path; the
  body sent is the \<open>'binary'\<close> encoding of that form.
\<close>

lemma uploadImage_png_form:
  assumes "readFile w p = Inr buf"
    and "toLowerCase (extname p) = js ''.png''"
  shows "\<exists>req. fetches (snd (uploadImage w u p)) = [req]
     \<and> body req =
         Buffer_from_binary
           (multipart (formBoundary (now w))
              [\<lparr>partName = js ''file'', partFilename = basename p,
                partContentType = js ''image/png'', partData = toString_binary buf\<rparr>])"
proof -
  have "contentTypeOf (toLowerCase (extname p)) = Inr (js ''image/png'')"
    using assms(2) by (simp add: contentTypeOf_def)
  from uploadImage_body_supported(1) [OF assms(1) this, of u]
  show ?thesis
    by (simp add: uploadImage_fetches formData_multipart mediaRequest_def)
qed

text \<open>
  C7 holds of the form as a string, and fails on the body that is sent: the body keeps
  the low byte of each code unit of the form, the file name included. For the
  screenshot whose basename is U+3042 followed by \<open>.png\<close>, the body has one part named
  \<open>file\<close> with the line \<open>Content-Type: image/png\<close>, and its file name attribute is
  \<open>B.png\<close>, which is not the basename; it is the body sent for the file \<open>B.png\<close>.
\<close>

theorem uploadImage_filename_low_bytes:
  "readFile exampleWorld kanaPath = Inr [0x89, 0x50, 0x4E, 0x47]
   \<and> toLowerCase (extname kanaPath) = js ''.png''
   \<and> basename kanaPath = [0x3042] @ js ''.png''
   \<and> map body (fetches (snd (uploadImage exampleWorld exampleUploader kanaPath))) =
       [ascii ''------formdata-boundary-42'' @ [0x0D, 0x0A]
        @ ascii ''Content-Disposition: form-data; name=\"file\"; filename=\"B.png\"''
        @ [0x0D, 0x0A]
        @ ascii ''Content-Type: image/png'' @ [0x0D, 0x0A]
        @ [0x0D, 0x0A]
        @ [0x89, 0x50, 0x4E, 0x47] @ [0x0D, 0x0A]
        @ ascii ''------formdata-boundary-42--'']
   \<and> toString_binary (ascii ''B.png'') \<noteq> basename kanaPath
   \<and> map body (fetches (snd (uploadImage exampleWorld exampleUploader kanaPath))) =
       map body (fetches (snd (uploadImage exampleWorld exampleUploader
                                 (js ''/tmp/playwright-mcp-output/B.png''))))"
  by code_simp

text \<open>
  C10: the \<open>Content-Length\<close> header of the request is the number of bytes of its body,
  and the body holds the bytes of the file unchanged between the part's header and the
  closing delimiter, since a buffer decoded as a binary string and encoded again is the
  same buffer.
\<close>

theorem uploadImage_content_length:
  assumes "readFile w p = Inr buf"
    and "contentTypeOf (toLowerCase (extname p)) = Inr ct"
  shows "\<exists>req. fetches (snd (uploadImage w u p)) = [req]
     \<and> map_of (headers req) (js ''Content-Length'') = Some (decimal (length (body req)))
     \<and> body req =
         Buffer_from_binary
           (js ''--'' @ formBoundary (now w) @ CRLF
            @ js ''Content-Disposition: form-data; name=\"file\"; filename=\"'' @ basename p
            @ js ''\"'' @ CRLF
            @ js ''Content-Type: '' @ ct @ CRLF @ CRLF)
         @ buf
         @ Buffer_from_binary (CRLF @ js ''--'' @ formBoundary (now w) @ js ''--'')
     \<and> Buffer_from_binary (toString_binary buf) = buf"
proof -
  let ?form = "formData (formBoundary (now w)) (basename p) ct buf"
  let ?req = "mediaRequest u (formBoundary (now w)) ?form"
  have one: "fetches (snd (uploadImage w u p)) = [?req]"
    using uploadImage_body_supported(1) [OF assms, of u] by (simp add: uploadImage_fetches)
  have len: "map_of (headers ?req) (js ''Content-Length'') = Some (decimal (length (body ?req)))"
    by (simp add: mediaRequest_def byteLength_binary_def Buffer_from_binary_def js_def)
  have "Buffer_from_binary ?form =
      Buffer_from_binary
        (js ''--'' @ formBoundary (now w) @ CRLF
         @ js ''Content-Disposition: form-data; name=\"file\"; filename=\"'' @ basename p
         @ js ''\"'' @ CRLF
         @ js ''Content-Type: '' @ ct @ CRLF @ CRLF)
      @ Buffer_from_binary (toString_binary buf)
      @ Buffer_from_binary (CRLF @ js ''--'' @ formBoundary (now w) @ js ''--'')"
    by (simp add: formData_def Buffer_from_binary_append)
  then have bytes: "body ?req =
      Buffer_from_binary
        (js ''--'' @ formBoundary (now w) @ CRLF
         @ js ''Content-Disposition: form-data; name=\"file\"; filename=\"'' @ basename p
         @ js ''\"'' @ CRLF
         @ js ''Content-Type: '' @ ct @ CRLF @ CRLF)
      @ buf
      @ Buffer_from_binary (CRLF @ js ''--'' @ formBoundary (now w) @ js ''--'')"
    by (simp add: mediaRequest_def binary_roundtrip)
  from one len bytes binary_roundtrip show ?thesis
    by blast
qed

theorem uploadImage_content_length_witness:
  "\<exists>req. fetches (snd (uploadImage exampleWorld exampleUploader
                (js ''/tmp/playwright-mcp-output/a.png''))) = [req]
     \<and> map_of (headers req) (js ''Content-Length'') = Some (js ''152'')
     \<and> length (body req) = 152
     \<and> take 4 (drop 118 (body req)) = [0x89, 0x50, 0x4E, 0x47]"
proof -
  let ?png = "js ''/tmp/playwright-mcp-output/a.png''"
  let ?buf = "[0x89, 0x50, 0x4E, 0x47] :: buffer"
  have read: "readFile exampleWorld ?png = Inr ?buf"
    by code_simp
  have ct: "contentTypeOf (toLowerCase (extname ?png)) = Inr (js ''image/png'')"
    by code_simp
  have sent: "map (\<lambda>req. (length (body req), take 4 (drop 118 (body req))))
       (fetches (snd (uploadImage exampleWorld exampleUploader ?png))) = [(152, ?buf)]"
    by code_simp
  have digits: "decimal 152 = js ''152''"
    by code_simp
  from uploadImage_content_length [OF read ct, of exampleUploader]
  obtain req where req: "fetches (snd (uploadImage exampleWorld exampleUploader ?png)) = [req]"
    and len: "map_of (headers req) (js ''Content-Length'') = Some (decimal (length (body req)))"
    by blast
  from sent req have "length (body req) = 152" and "take 4 (drop 118 (body req)) = ?buf"
    by simp_all
  with req len digits show ?thesis
    by simp
qed

section \<open>The entry point: results\<close>

text \<open>
  C2: the exit code of \<open>main\<close> is 0 exactly when both credentials are present and
  either nothing stands at the screenshots path or the batch returned with every entry
  a success; it is 1 exactly when a credential is missing, the batch threw, or some
  entry is a failure. When the directory is absent no file is opened and no request is
  sent.
\<close>

theorem main_exit_code:
  "(fst (main w) = 0 \<longleftrightarrow>
      \<not> falsy (env w (js ''MICROCMS_SERVICE_DOMAIN''))
      \<and> \<not> falsy (env w (js ''MICROCMS_API_KEY''))
      \<and> (fs w screenshotsPath = None
         \<or> (\<exists>results. fst (uploadDirectory w (envUploader w) screenshotsPath) = Inr results
               \<and> list_all success results)))
   \<and> (fst (main w) = 1 \<longleftrightarrow>
      falsy (env w (js ''MICROCMS_SERVICE_DOMAIN''))
      \<or> falsy (env w (js ''MICROCMS_API_KEY''))
      \<or> (fs w screenshotsPath \<noteq> None
         \<and> ((\<exists>err. fst (uploadDirectory w (envUploader w) screenshotsPath) = Inl err)
            \<or> (\<exists>results r. fst (uploadDirectory w (envUploader w) screenshotsPath) = Inr results
                  \<and> r \<in> set results \<and> \<not> success r))))
   \<and> (fst (main w) = 0 \<or> fst (main w) = 1)
   \<and> (\<not> falsy (env w (js ''MICROCMS_SERVICE_DOMAIN''))
      \<and> \<not> falsy (env w (js ''MICROCMS_API_KEY''))
      \<and> fs w screenshotsPath = None
      \<longrightarrow> filesRead (snd (main w)) = [] \<and> fetches (snd (main w)) = [])"
proof (cases "falsy (env w (js ''MICROCMS_SERVICE_DOMAIN''))
    \<or> falsy (env w (js ''MICROCMS_API_KEY''))")
  case True
  then show ?thesis
    using main_falsy [of w] by auto
next
  case creds: False
  show ?thesis
  proof (cases "fs w screenshotsPath")
    case None
    with creds show ?thesis
      using main_absent [of w] by auto
  next
    case (Some node)
    with creds have "fst (main w) =
        (case fst (uploadDirectory w (envUploader w) screenshotsPath) of
           Inl err \<Rightarrow> 1
         | Inr results \<Rightarrow> if list_all success results then 0 else 1)"
      using main_present [of w node] by simp
    with creds Some show ?thesis
      by (cases "fst (uploadDirectory w (envUploader w) screenshotsPath)")
        (auto simp: list_all_iff)
  qed
qed

theorem main_exit_code_witness:
  "fst (main absentWorld) = 0
   \<and> filesRead (snd (main absentWorld)) = [] \<and> fetches (snd (main absentWorld)) = []
   \<and> fst (main exampleWorld) = 1
   \<and> fst (main readableExample) = 1
   \<and> fst (main noCredentials) = 1"
proof -
  have creds: "\<not> falsy (env absentWorld (js ''MICROCMS_SERVICE_DOMAIN''))"
    "\<not> falsy (env absentWorld (js ''MICROCMS_API_KEY''))"
    "\<not> falsy (env exampleWorld (js ''MICROCMS_SERVICE_DOMAIN''))"
    "\<not> falsy (env exampleWorld (js ''MICROCMS_API_KEY''))"
    by code_simp+
  have absent: "fs absentWorld screenshotsPath = None"
    by (simp add: absentWorld_def)
  have present: "fs exampleWorld screenshotsPath \<noteq> None"
    by (simp add: exampleWorld_def)
  have batch: "fst (uploadDirectory exampleWorld (envUploader exampleWorld) screenshotsPath) =
     Inr [Success (js ''a.png'') (js ''a.png'') (Some (JStr (js ''https://x/y.png''))),
          Failure (js ''b.PNG'') (js ''sub/b.PNG'') (js ''EACCES: permission denied, open''),
          Success (js ''c.png'') (js ''c.png'') (Some (JStr (js ''https://x/y.png'')))]"
    by code_simp
  have missing: "falsy (env noCredentials (js ''MICROCMS_SERVICE_DOMAIN''))"
    by code_simp
  have "fst (main absentWorld) = 0"
    and "filesRead (snd (main absentWorld)) = [] \<and> fetches (snd (main absentWorld)) = []"
    using main_exit_code [of absentWorld] creds(1,2) absent by blast+
  moreover have "\<exists>results r.
      fst (uploadDirectory exampleWorld (envUploader exampleWorld) screenshotsPath) = Inr results
      \<and> r \<in> set results \<and> \<not> success r"
    by (rule exI, rule exI [of _ "Failure (js ''b.PNG'') (js ''sub/b.PNG'')
          (js ''EACCES: permission denied, open'')"], rule conjI, rule batch) simp
  then have "fst (main exampleWorld) = 1"
    using main_exit_code [of exampleWorld] present by blast
  moreover have "fst (main readableExample) = 1"
    by code_simp
  moreover have "fst (main noCredentials) = 1"
    using main_exit_code [of noCredentials] missing by blast
  ultimately show ?thesis
    by simp
qed

text \<open>
  C5: when either credential is absent from the environment, \<open>main\<close> prints the error
  line, exits with code 1 and makes no call to the file system, the clock or the
  network.
\<close>

theorem main_requires_credentials:
  "env w (js ''MICROCMS_SERVICE_DOMAIN'') = None \<or> env w (js ''MICROCMS_API_KEY'') = None
   \<Longrightarrow> main w = (1, [credentialsError]) \<and> ioCalls (snd (main w)) = []"
proof -
  assume "env w (js ''MICROCMS_SERVICE_DOMAIN'') = None \<or> env w (js ''MICROCMS_API_KEY'') = None"
  then have "falsy (env w (js ''MICROCMS_SERVICE_DOMAIN''))
      \<or> falsy (env w (js ''MICROCMS_API_KEY''))"
    by (auto simp: falsy_def)
  then have "main w = (1, [credentialsError])"
    by (rule main_falsy)
  then show ?thesis
    by (simp add: ioCalls_def credentialsError_def)
qed

theorem main_requires_credentials_witness:
  "env noCredentials (js ''MICROCMS_API_KEY'') = None
   \<and> main noCredentials = (1, [credentialsError])
   \<and> ioCalls (snd (main noCredentials)) = []"
proof -
  have none: "env noCredentials (js ''MICROCMS_API_KEY'') = None"
    by (simp add: noCredentials_def)
  then have "env noCredentials (js ''MICROCMS_SERVICE_DOMAIN'') = None
      \<or> env noCredentials (js ''MICROCMS_API_KEY'') = None"
    by simp
  from main_requires_credentials [OF this] none show ?thesis
    by blast
qed

text \<open>
  C9: a credential set to the empty string is treated as an absent one: the run is the
  run of the same environment without the variable, it prints the error line, exits
  with code 1, and makes no call to the file system or the network.
\<close>

theorem main_empty_credential_as_absent:
  "(env w (js ''MICROCMS_SERVICE_DOMAIN'') = Some [] \<longrightarrow>
      main w = main (w\<lparr>env := (env w)(js ''MICROCMS_SERVICE_DOMAIN'' := None)\<rparr>))
   \<and> (env w (js ''MICROCMS_API_KEY'') = Some [] \<longrightarrow>
      main w = main (w\<lparr>env := (env w)(js ''MICROCMS_API_KEY'' := None)\<rparr>))
   \<and> (env w (js ''MICROCMS_SERVICE_DOMAIN'') = Some [] \<or> env w (js ''MICROCMS_API_KEY'') = Some []
      \<longrightarrow> main w = (1, [credentialsError]) \<and> ioCalls (snd (main w)) = [])"
proof -
  have empty: "main w = (1, [credentialsError])"
    if "env w (js ''MICROCMS_SERVICE_DOMAIN'') = Some [] \<or> env w (js ''MICROCMS_API_KEY'') = Some []"
    using that by (intro main_falsy) (auto simp: falsy_def)
  have absent: "main (w\<lparr>env := (env w)(v := None)\<rparr>) = (1, [credentialsError])"
    if "v = js ''MICROCMS_SERVICE_DOMAIN'' \<or> v = js ''MICROCMS_API_KEY''" for v
    using that by (intro main_falsy) (auto simp: falsy_def)
  show ?thesis
    using empty absent by (simp add: ioCalls_def credentialsError_def)
qed

theorem main_empty_credential_as_absent_witness:
  "env emptyKey (js ''MICROCMS_API_KEY'') = Some []
   \<and> main emptyKey = main (emptyKey\<lparr>env := (env emptyKey)(js ''MICROCMS_API_KEY'' := None)\<rparr>)
   \<and> main emptyKey = (1, [credentialsError])
   \<and> ioCalls (snd (main emptyKey)) = []"
proof -
  have empty: "env emptyKey (js ''MICROCMS_API_KEY'') = Some []"
    by (simp add: emptyKey_def)
  with main_empty_credential_as_absent [of emptyKey] show ?thesis
    by blast
qed

end
